theory Spec2Isabelle
  imports Complex_Main "HOL-Library.Sublist"
begin

section \<open>Python values\<close>

text \<open>
  A Python \<^verbatim>\<open>str\<close> is a sequence of Unicode code points: \<^verbatim>\<open>len\<close>, slicing and
  \<^verbatim>\<open>strip\<close> count code points, and the program's own texts are Cyrillic. A string is
  therefore a list of code points, and every literal of the source is written out as such.
\<close>

type_synonym pystr = "nat list"

definition ascii :: "string \<Rightarrow> pystr" where
  "ascii s = map of_char s"

definition isspace :: "nat \<Rightarrow> bool" where
  \<comment> \<open>the code points Python's \<^verbatim>\<open>str.isspace\<close> accepts, which \<^verbatim>\<open>str.strip()\<close> removes\<close>
  "isspace c \<longleftrightarrow>
     (9 \<le> c \<and> c \<le> 13) \<or> (28 \<le> c \<and> c \<le> 32) \<or> c = 133 \<or> c = 160 \<or> c = 5760 \<or>
     (8192 \<le> c \<and> c \<le> 8202) \<or> c = 8232 \<or> c = 8233 \<or> c = 8239 \<or> c = 8287 \<or> c = 12288"

definition strip :: "pystr \<Rightarrow> pystr" where
  "strip s = rev (dropWhile isspace (rev (dropWhile isspace s)))"

fun digits :: "nat \<Rightarrow> pystr" where
  "digits n = (if n < 10 then [48 + n] else digits (n div 10) @ [48 + n mod 10])"

declare digits.simps [simp del]

definition str_int :: "int \<Rightarrow> pystr" where
  \<comment> \<open>\<^verbatim>\<open>str(i)\<close>, as an f-string formats an \<^verbatim>\<open>int\<close>\<close>
  "str_int i = (if i < 0 then 45 # digits (nat (- i)) else digits (nat i))"

definition range_n :: "nat \<Rightarrow> nat list" where
  \<comment> \<open>\<^verbatim>\<open>range(n)\<close>\<close>
  "range_n n = [0..<n]"

text \<open>
  Exceptions are values. The interpreter's own exceptions keep their class only (their
  text depends on the Python version); an exception raised by a library (httpx, the JSON
  decoder, the knowledge base) carries its \<^verbatim>\<open>str(e)\<close>.
\<close>

datatype py_exn = KeyError | IndexError | TypeError | AttributeError | Raised pystr

text \<open>What \<^verbatim>\<open>response.json()\<close> returns: a dict is an association list read with \<open>map_of\<close>.\<close>

datatype json =
    JNull
  | JBool bool
  | JNum real
  | JStr pystr
  | JArr "json list"
  | JObj "(pystr \<times> json) list"

fun getitem :: "json \<Rightarrow> pystr \<Rightarrow> py_exn + json" where
  \<comment> \<open>\<^verbatim>\<open>v[key]\<close> for a string key\<close>
  "getitem (JObj kvs) key = (case map_of kvs key of None \<Rightarrow> Inl KeyError | Some v \<Rightarrow> Inr v)"
| "getitem _ key = Inl TypeError"

fun getitem0 :: "json \<Rightarrow> py_exn + json" where
  \<comment> \<open>\<^verbatim>\<open>v[0]\<close>\<close>
  "getitem0 (JArr []) = Inl IndexError"
| "getitem0 (JArr (v # vs)) = Inr v"
| "getitem0 (JStr []) = Inl IndexError"
| "getitem0 (JStr (c # cs)) = Inr (JStr [c])"
| "getitem0 (JObj kvs) = Inl KeyError"
| "getitem0 _ = Inl TypeError"

section \<open>The texts of the program\<close>

definition system_content :: pystr where
  \<comment> \<open>the system prompt of \<^verbatim>\<open>_build_messages\<close>\<close>
  "system_content =
     [1058, 1099, 32, 45, 32, 1087, 1088, 1086, 1092, 1077, 1089, 1089, 1080, 1086, 1085, 1072,
      1083, 1100, 1085, 1099, 1081, 32, 1082, 1086, 1085, 1089, 1091, 1083, 1100, 1090, 1072,
      1085, 1090, 32, 1087, 1086, 32, 1080, 1085, 1074, 1077, 1089, 1090, 1080, 1094, 1080,
      1086, 1085, 1085, 1099, 1084, 32, 1087, 1088, 1086, 1076, 1091, 1082, 1090, 1072, 1084,
      46, 10, 10, 1058, 1074, 1086, 1103, 32, 1079, 1072, 1076, 1072, 1095, 1072, 58, 10, 45,
      32, 1054, 1090, 1074, 1077, 1095, 1072, 1090, 1100, 32, 1085, 1072, 32, 1074, 1086, 1087,
      1088, 1086, 1089, 1099, 32, 1082, 1083, 1080, 1077, 1085, 1090, 1086, 1074, 32, 1086,
      1073, 32, 1080, 1085, 1074, 1077, 1089, 1090, 1080, 1094, 1080, 1086, 1085, 1085, 1099,
      1093, 32, 1087, 1072, 1103, 1093, 44, 32, 1047, 1055, 1048, 1060, 32, 1080, 32, 1080,
      1085, 1074, 1077, 1089, 1090, 1080, 1094, 1080, 1086, 1085, 1085, 1099, 1093, 32, 1091,
      1089, 1083, 1091, 1075, 1072, 1093, 10, 45, 32, 1048, 1089, 1087, 1086, 1083, 1100, 1079,
      1086, 1074, 1072, 1090, 1100, 32, 1090, 1086, 1083, 1100, 1082, 1086, 32, 1087, 1088,
      1077, 1076, 1086, 1089, 1090, 1072, 1074, 1083, 1077, 1085, 1085, 1091, 1102, 32, 1080,
      1085, 1092, 1086, 1088, 1084, 1072, 1094, 1080, 1102, 32, 1080, 1079, 32, 1073, 1072,
      1079, 1099, 32, 1079, 1085, 1072, 1085, 1080, 1081, 10, 45, 32, 1044, 1072, 1074, 1072,
      1090, 1100, 32, 1090, 1086, 1095, 1085, 1099, 1077, 32, 1080, 32, 1087, 1088, 1086, 1092,
      1077, 1089, 1089, 1080, 1086, 1085, 1072, 1083, 1100, 1085, 1099, 1077, 32, 1086, 1090,
      1074, 1077, 1090, 1099, 10, 45, 32, 1045, 1089, 1083, 1080, 32, 1080, 1085, 1092, 1086,
      1088, 1084, 1072, 1094, 1080, 1080, 32, 1085, 1077, 1090, 32, 1074, 32, 1073, 1072, 1079,
      1077, 32, 1079, 1085, 1072, 1085, 1080, 1081, 32, 45, 32, 1095, 1077, 1089, 1090, 1085,
      1086, 32, 1089, 1082, 1072, 1079, 1072, 1090, 1100, 32, 1086, 1073, 32, 1101, 1090, 1086,
      1084, 10, 45, 32, 1053, 1077, 32, 1076, 1072, 1074, 1072, 1090, 1100, 32, 1092, 1080,
      1085, 1072, 1085, 1089, 1086, 1074, 1099, 1093, 32, 1089, 1086, 1074, 1077, 1090, 1086,
      1074, 44, 32, 1090, 1086, 1083, 1100, 1082, 1086, 32, 1080, 1085, 1092, 1086, 1088, 1084,
      1072, 1094, 1080, 1102, 32, 1086, 32, 1087, 1088, 1086, 1076, 1091, 1082, 1090, 1072,
      1093, 10, 10, 1057, 1090, 1080, 1083, 1100, 58, 32, 1076, 1077, 1083, 1086, 1074, 1086,
      1081, 44, 32, 1085, 1086, 32, 1087, 1086, 1085, 1103, 1090, 1085, 1099, 1081, 32, 1076,
      1083, 1103, 32, 1082, 1083, 1080, 1077, 1085, 1090, 1086, 1074, 46]"

definition context_header :: pystr where
  \<comment> \<open>user message with context, before \<^verbatim>\<open>{context}\<close>\<close>
  "context_header =
     [1048, 1085, 1092, 1086, 1088, 1084, 1072, 1094, 1080, 1103, 32, 1080, 1079, 32, 1073,
      1072, 1079, 1099, 32, 1079, 1085, 1072, 1085, 1080, 1081, 58, 10, 10]"

definition context_question :: pystr where
  \<comment> \<open>between \<^verbatim>\<open>{context}\<close> and \<^verbatim>\<open>{user_query}\<close>\<close>
  "context_question =
     [10, 10, 1042, 1086, 1087, 1088, 1086, 1089, 32, 1082, 1083, 1080, 1077, 1085, 1090, 1072,
      58, 32]"

definition context_footer :: pystr where
  \<comment> \<open>after \<^verbatim>\<open>{user_query}\<close>\<close>
  "context_footer =
     [10, 10, 1054, 1090, 1074, 1077, 1090, 1100, 32, 1085, 1072, 32, 1086, 1089, 1085, 1086,
      1074, 1077, 32, 1087, 1088, 1077, 1076, 1086, 1089, 1090, 1072, 1074, 1083, 1077, 1085,
      1085, 1086, 1081, 32, 1080, 1085, 1092, 1086, 1088, 1084, 1072, 1094, 1080, 1080, 46]"

definition no_context_question :: pystr where
  \<comment> \<open>user message without context, before \<^verbatim>\<open>{user_query}\<close>\<close>
  "no_context_question =
     [1042, 1086, 1087, 1088, 1086, 1089, 32, 1082, 1083, 1080, 1077, 1085, 1090, 1072, 58, 32]"

definition no_context_footer :: pystr where
  \<comment> \<open>after \<^verbatim>\<open>{user_query}\<close>\<close>
  "no_context_footer =
     [10, 10, 1042, 32, 1073, 1072, 1079, 1077, 32, 1079, 1085, 1072, 1085, 1080, 1081, 32,
      1085, 1077, 32, 1085, 1072, 1081, 1076, 1077, 1085, 1086, 32, 1088, 1077, 1083, 1077,
      1074, 1072, 1085, 1090, 1085, 1086, 1081, 32, 1080, 1085, 1092, 1086, 1088, 1084, 1072,
      1094, 1080, 1080, 46, 32, 1054, 1090, 1074, 1077, 1090, 1100, 32, 1095, 1090, 1086, 32,
      1085, 1077, 32, 1084, 1086, 1078, 1077, 1096, 1100, 32, 1076, 1072, 1090, 1100, 32, 1090,
      1086, 1095, 1085, 1099, 1081, 32, 1086, 1090, 1074, 1077, 1090, 32, 1080, 32, 1087, 1088,
      1077, 1076, 1083, 1086, 1078, 1080, 32, 1086, 1073, 1088, 1072, 1090, 1080, 1090, 1100,
      1089, 1103, 32, 1082, 32, 1089, 1087, 1077, 1094, 1080, 1072, 1083, 1080, 1089, 1090,
      1072, 1084, 46]"

definition ask_question_text :: pystr where
  \<comment> \<open>returned for a blank query\<close>
  "ask_question_text =
     [1055, 1086, 1078, 1072, 1083, 1091, 1081, 1089, 1090, 1072, 44, 32, 1079, 1072, 1076,
      1072, 1081, 1090, 1077, 32, 1074, 1086, 1087, 1088, 1086, 1089, 32, 1086, 1073, 32, 1080,
      1085, 1074, 1077, 1089, 1090, 1080, 1094, 1080, 1086, 1085, 1085, 1099, 1093, 32, 1087,
      1088, 1086, 1076, 1091, 1082, 1090, 1072, 1093, 46]"

definition unavailable_text :: pystr where
  \<comment> \<open>returned when no API token is set\<close>
  "unavailable_text =
     [1057, 1077, 1088, 1074, 1080, 1089, 32, 1074, 1088, 1077, 1084, 1077, 1085, 1085, 1086,
      32, 1085, 1077, 1076, 1086, 1089, 1090, 1091, 1087, 1077, 1085, 46, 32, 1054, 1073, 1088,
      1072, 1090, 1080, 1090, 1077, 1089, 1100, 32, 1082, 32, 1089, 1087, 1077, 1094, 1080,
      1072, 1083, 1080, 1089, 1090, 1072, 1084, 32, 1087, 1086, 32, 1090, 1077, 1083, 1077,
      1092, 1086, 1085, 1091, 46]"

definition timeout_text :: pystr where
  \<comment> \<open>message of the error after a timeout on the last attempt\<close>
  "timeout_text =
     [1055, 1088, 1077, 1074, 1099, 1096, 1077, 1085, 32, 1090, 1072, 1081, 1084, 1072, 1091,
      1090, 32, 1079, 1072, 1087, 1088, 1086, 1089, 1072, 32, 1082, 32, 76, 76, 77]"

definition network_error_prefix :: pystr where
  \<comment> \<open>message prefix of the error after a transport error on the last attempt\<close>
  "network_error_prefix =
     [1057, 1077, 1090, 1077, 1074, 1072, 1103, 32, 1086, 1096, 1080, 1073, 1082, 1072, 58, 32]"

definition exhausted_text :: pystr where
  \<comment> \<open>message of the error raised after the loop\<close>
  "exhausted_text =
     [1048, 1089, 1095, 1077, 1088, 1087, 1072, 1085, 1099, 32, 1087, 1086, 1087, 1099, 1090,
      1082, 1080, 32, 1079, 1072, 1087, 1088, 1086, 1089, 1072, 32, 1082, 32, 76, 76, 77]"

definition test_query :: pystr where
  \<comment> \<open>the query of \<^verbatim>\<open>health_check\<close>\<close>
  "test_query =
     [1058, 1077, 1089, 1090]"

definition test_context :: pystr where
  \<comment> \<open>the context of \<^verbatim>\<open>health_check\<close>\<close>
  "test_context =
     [1058, 1077, 1089, 1090, 1086, 1074, 1072, 1103, 32, 1080, 1085, 1092, 1086, 1088, 1084,
      1072, 1094, 1080, 1103]"

definition empty_query_text :: pystr where
  \<comment> \<open>message of the validator's ValueError\<close>
  "empty_query_text =
     [1042, 1086, 1087, 1088, 1086, 1089, 32, 1085, 1077, 32, 1084, 1086, 1078, 1077, 1090, 32,
      1073, 1099, 1090, 1100, 32, 1087, 1091, 1089, 1090, 1099, 1084]"

definition fallback_with_context :: pystr where
  \<comment> \<open>fallback answer, before \<^verbatim>\<open>{context}\<close>\<close>
  "fallback_with_context =
     [1048, 1079, 1074, 1080, 1085, 1080, 1090, 1077, 44, 32, 1089, 1077, 1088, 1074, 1080,
      1089, 32, 1075, 1077, 1085, 1077, 1088, 1072, 1094, 1080, 1080, 32, 1086, 1090, 1074,
      1077, 1090, 1086, 1074, 32, 1074, 1088, 1077, 1084, 1077, 1085, 1085, 1086, 32, 1085,
      1077, 1076, 1086, 1089, 1090, 1091, 1087, 1077, 1085, 46, 32, 1042, 1086, 1090, 32, 1080,
      1085, 1092, 1086, 1088, 1084, 1072, 1094, 1080, 1103, 32, 1080, 1079, 32, 1085, 1072,
      1096, 1077, 1081, 32, 1073, 1072, 1079, 1099, 32, 1079, 1085, 1072, 1085, 1080, 1081, 58,
      10, 10]"

definition fallback_without_context :: pystr where
  \<comment> \<open>fallback answer when no context was found\<close>
  "fallback_without_context =
     [1048, 1079, 1074, 1080, 1085, 1080, 1090, 1077, 44, 32, 1089, 1077, 1088, 1074, 1080,
      1089, 32, 1074, 1088, 1077, 1084, 1077, 1085, 1085, 1086, 32, 1085, 1077, 1076, 1086,
      1089, 1090, 1091, 1087, 1077, 1085, 46, 32, 1055, 1086, 1078, 1072, 1083, 1091, 1081,
      1089, 1090, 1072, 44, 32, 1086, 1073, 1088, 1072, 1090, 1080, 1090, 1077, 1089, 1100, 32,
      1082, 32, 1089, 1087, 1077, 1094, 1080, 1072, 1083, 1080, 1089, 1090, 1072, 1084, 32,
      1087, 1086, 32, 1090, 1077, 1083, 1077, 1092, 1086, 1085, 1091, 32, 1080, 1083, 1080, 32,
      1095, 1077, 1088, 1077, 1079, 32, 1089, 1072, 1081, 1090, 46]"

definition internal_error_detail :: pystr where
  \<comment> \<open>detail of the HTTP 500 answer\<close>
  "internal_error_detail =
     [1042, 1085, 1091, 1090, 1088, 1077, 1085, 1085, 1103, 1103, 32, 1086, 1096, 1080, 1073,
      1082, 1072, 32, 1089, 1077, 1088, 1074, 1077, 1088, 1072, 46, 32, 1055, 1086, 1087, 1088,
      1086, 1073, 1091, 1081, 1090, 1077, 32, 1087, 1086, 1079, 1078, 1077, 46]"


definition not_found_phrase :: pystr where
  \<comment> \<open>in the user message without context: no relevant information was found\<close>
  "not_found_phrase =
     [1085, 1077, 32, 1085, 1072, 1081, 1076, 1077, 1085, 1086, 32, 1088, 1077, 1083, 1077,
      1074, 1072, 1085, 1090, 1085, 1086, 1081, 32, 1080, 1085, 1092, 1086, 1088, 1084, 1072,
      1094, 1080, 1080]"

definition cannot_answer_phrase :: pystr where
  \<comment> \<open>in the user message without context: say that no exact answer can be given\<close>
  "cannot_answer_phrase =
     [1085, 1077, 32, 1084, 1086, 1078, 1077, 1096, 1100, 32, 1076, 1072, 1090, 1100, 32, 1090,
      1086, 1095, 1085, 1099, 1081, 32, 1086, 1090, 1074, 1077, 1090]"

definition suggest_specialists :: pystr where
  \<comment> \<open>in the user message without context: suggest turning to the specialists\<close>
  "suggest_specialists =
     [1086, 1073, 1088, 1072, 1090, 1080, 1090, 1100, 1089, 1103, 32, 1082, 32, 1089, 1087,
      1077, 1094, 1080, 1072, 1083, 1080, 1089, 1090, 1072, 1084]"

section \<open>The LLM client (llm\_client.py)\<close>

datatype llm_api_error =
    LLMAPIError pystr
  | LLMAPIError_internal py_exn
    \<comment> \<open>the error raised by the outer \<^verbatim>\<open>except Exception as e\<close>, whose message is a fixed
        prefix and \<^verbatim>\<open>str(e)\<close>: it keeps the exception it wraps\<close>

record client =
  base_url :: pystr
  api_token :: pystr
  model :: pystr

record message =
  role :: pystr
  content :: pystr

definition user_content_with_context :: "pystr \<Rightarrow> pystr \<Rightarrow> pystr" where
  "user_content_with_context user_query context =
     context_header @ context @ context_question @ user_query @ context_footer"

definition user_content_without_context :: "pystr \<Rightarrow> pystr" where
  "user_content_without_context user_query =
     no_context_question @ user_query @ no_context_footer"

definition build_messages :: "pystr \<Rightarrow> pystr option \<Rightarrow> message list" where
  "build_messages user_query context =
     (let messages = [\<lparr>role = ascii ''system'', content = system_content\<rparr>];
          user_content =
            (case context of
               None \<Rightarrow> user_content_without_context user_query
             | Some c \<Rightarrow>
                 if c = [] then user_content_without_context user_query
                 else user_content_with_context user_query c)
      in messages @ [\<lparr>role = ascii ''user'', content = user_content\<rparr>])"

record payload =
  payload_model :: pystr
  messages :: "message list"
  temperature :: real
  max_tokens :: nat
  top_p :: real

text \<open>
  What the client does to the outside: a search in the knowledge base, a POST to the
  completion endpoint, a sleep. A run returns its result with the events in order.
\<close>

datatype event =
    Search pystr nat
  | Post pystr "(pystr \<times> pystr) list" payload
  | Sleep nat

datatype http_outcome =
    Response (status_code: int) (response_text: pystr) (response_json: "py_exn + json")
  | TimeoutException pystr
  | RequestError pystr
  | OtherException py_exn

definition request_payload :: "client \<Rightarrow> pystr \<Rightarrow> pystr option \<Rightarrow> payload" where
  "request_payload self user_query context =
     \<lparr>payload_model = model self, messages = build_messages user_query context,
      temperature = 3 / 10, max_tokens = 800, top_p = 9 / 10\<rparr>"

definition request_headers :: "client \<Rightarrow> (pystr \<times> pystr) list" where
  "request_headers self =
     [(ascii ''Content-Type'', ascii ''application/json''),
      (ascii ''Authorization'', ascii ''Bearer '' @ api_token self),
      (ascii ''User-Agent'', ascii ''Investment-RAG-Bot/1.0'')]"

definition post_call :: "client \<Rightarrow> pystr \<Rightarrow> pystr option \<Rightarrow> event" where
  "post_call self user_query context =
     Post (base_url self @ ascii ''/chat/completions'') (request_headers self)
       (request_payload self user_query context)"

definition read_answer :: "py_exn + json \<Rightarrow> py_exn + pystr" where
  \<comment> \<open>the body of the \<^verbatim>\<open>status_code == 200\<close> branch: \<^verbatim>\<open>response.json()\<close>,
      \<^verbatim>\<open>result["choices"][0]["message"]["content"]\<close>, \<^verbatim>\<open>len(answer)\<close> in the log line,
      \<^verbatim>\<open>answer.strip()\<close>\<close>
  "read_answer js =
     (case js of Inl e \<Rightarrow> Inl e | Inr result \<Rightarrow>
      case getitem result (ascii ''choices'') of Inl e \<Rightarrow> Inl e | Inr choices \<Rightarrow>
      case getitem0 choices of Inl e \<Rightarrow> Inl e | Inr choice \<Rightarrow>
      case getitem choice (ascii ''message'') of Inl e \<Rightarrow> Inl e | Inr msg \<Rightarrow>
      case getitem msg (ascii ''content'') of Inl e \<Rightarrow> Inl e | Inr answer \<Rightarrow>
      (case answer of
         JStr s \<Rightarrow> Inr (strip s)
       | JArr vs \<Rightarrow> Inl AttributeError
       | JObj kvs \<Rightarrow> Inl AttributeError
       | _ \<Rightarrow> Inl TypeError))"

definition api_error_text :: "int \<Rightarrow> pystr \<Rightarrow> pystr" where
  \<comment> \<open>\<^verbatim>\<open>f"API error {response.status_code}: {error_detail}"\<close>\<close>
  "api_error_text status error_detail =
     ascii ''API error '' @ str_int status @ ascii '': '' @ error_detail"

fun request_loop ::
  "event \<Rightarrow> (nat \<Rightarrow> http_outcome) \<Rightarrow> nat list \<Rightarrow> (llm_api_error + pystr) \<times> event list" where
  "request_loop call post [] = (Inl (LLMAPIError exhausted_text), [])"
| "request_loop call post (attempt # rest) =
     (case post attempt of
        Response status txt js \<Rightarrow>
          if status = 200 then
            (case read_answer js of
               Inl e \<Rightarrow> (Inl (LLMAPIError_internal e), [call])
             | Inr answer \<Rightarrow> (Inr answer, [call]))
          else if status = 429 then
            (let wait_time = 2 ^ attempt;
                 (r, evs) = request_loop call post rest
             in (r, call # Sleep wait_time # evs))
          else (Inl (LLMAPIError (api_error_text status (take 200 txt))), [call])
      | TimeoutException m \<Rightarrow>
          if attempt = 2 then (Inl (LLMAPIError timeout_text), [call])
          else (let (r, evs) = request_loop call post rest in (r, call # Sleep 1 # evs))
      | RequestError m \<Rightarrow>
          if attempt = 2 then (Inl (LLMAPIError (network_error_prefix @ m)), [call])
          else (let (r, evs) = request_loop call post rest in (r, call # Sleep 1 # evs))
      | OtherException e \<Rightarrow> (Inl (LLMAPIError_internal e), [call]))"

definition generate_response ::
  "client \<Rightarrow> (nat \<Rightarrow> http_outcome) \<Rightarrow> pystr \<Rightarrow> pystr option
     \<Rightarrow> (llm_api_error + pystr) \<times> event list" where
  "generate_response self post user_query context =
     (if user_query = [] \<or> strip user_query = [] then (Inr ask_question_text, [])
      else if api_token self = [] then (Inr unavailable_text, [])
      else request_loop (post_call self user_query context) post (range_n 3))"

definition health_check :: "client \<Rightarrow> (nat \<Rightarrow> http_outcome) \<Rightarrow> bool \<times> event list" where
  "health_check self post =
     (case generate_response self post test_query (Some test_context) of
        (Inl e, evs) \<Rightarrow> (False, evs)
      | (Inr test_response, evs) \<Rightarrow> (test_response \<noteq> [], evs))"

section \<open>The application (app.py)\<close>

datatype validation_error = MinLengthError | MaxLengthError | ValueError pystr

definition validate_query :: "pystr \<Rightarrow> validation_error + pystr" where
  "validate_query v =
     (if v = [] \<or> strip v = [] then Inl (ValueError empty_query_text) else Inr (strip v))"

definition ChatRequest :: "pystr \<Rightarrow> validation_error + pystr" where
  \<comment> \<open>\<^verbatim>\<open>Field(..., min_length=1, max_length=1000)\<close> is checked on the value as received,
      then the validator of the class runs\<close>
  "ChatRequest query =
     (if length query < 1 then Inl MinLengthError
      else if 1000 < length query then Inl MaxLengthError
      else validate_query query)"

record chat_response =
  response :: pystr
  context_found :: bool
  processing_time :: "real option"

datatype http_exception = HTTPException int pystr

definition round3 :: "real \<Rightarrow> real" where
  \<comment> \<open>\<^verbatim>\<open>round(x, 3)\<close> on the reals, ties to even; the rounding of the float itself is not
      modelled\<close>
  "round3 x =
     (let y = x * 1000; f = \<lfloor>y\<rfloor>; d = y - of_int f
      in of_int (if d < 1 / 2 then f else if 1 / 2 < d then f + 1
                 else if even f then f else f + 1) / 1000)"

text \<open>
  The collaborators of a request: the client object, the knowledge base (its module is
  not part of the sources; \<^verbatim>\<open>search(query, top_k)\<close> returns the context as a string, empty
  when nothing was found, or raises), the answer of the endpoint to the POST of each
  attempt, and the two readings of the clock.
\<close>

record env =
  llm_client :: client
  search :: "pystr \<Rightarrow> nat \<Rightarrow> py_exn + pystr"
  http_post :: "nat \<Rightarrow> http_outcome"
  start_time :: real
  end_time :: real

definition process_chat_request :: "env \<Rightarrow> pystr \<Rightarrow> (http_exception + chat_response) \<times> event list" where
  "process_chat_request w query =
     (case search w query 3 of
        Inl e \<Rightarrow> (Inl (HTTPException 500 internal_error_detail), [Search query 3])
      | Inr context \<Rightarrow>
          (let context_found = (context \<noteq> []);
               (r, evs) = generate_response (llm_client w) (http_post w) query (Some context);
               response_text =
                 (case r of
                    Inr t \<Rightarrow> t
                  | Inl e \<Rightarrow>
                      if context_found then fallback_with_context @ context
                      else fallback_without_context);
               processing_time = end_time w - start_time w
           in (Inr \<lparr>response = response_text, context_found = context_found,
                     processing_time = Some (round3 processing_time)\<rparr>,
               Search query 3 # evs)))"

definition chat_route ::
  "env \<Rightarrow> pystr \<Rightarrow> (validation_error + http_exception + chat_response) \<times> event list" where
  \<comment> \<open>\<^verbatim>\<open>@app.post("/chat")\<close>: the framework builds the \<^verbatim>\<open>ChatRequest\<close> from the body and
      calls the handler only with a valid one\<close>
  "chat_route w query =
     (case ChatRequest query of
        Inl err \<Rightarrow> (Inl err, [])
      | Inr q \<Rightarrow> (case process_chat_request w q of (r, evs) \<Rightarrow> (Inr r, evs)))"

section \<open>Observations on a run\<close>

fun wait_of :: "event \<Rightarrow> nat" where
  "wait_of (Sleep n) = n"
| "wait_of _ = 0"

definition total_wait :: "event list \<Rightarrow> nat" where
  "total_wait evs = sum_list (map wait_of evs)"

fun is_post :: "event \<Rightarrow> bool" where
  "is_post (Post url headers body) = True"
| "is_post _ = False"


fun transient :: "http_outcome \<Rightarrow> bool" where
  \<comment> \<open>the outcomes after which an attempt before the last one sleeps and goes on\<close>
  "transient (Response status txt js) = (status = 429)"
| "transient (TimeoutException m) = True"
| "transient (RequestError m) = True"
| "transient (OtherException e) = False"

section \<open>Sample collaborators\<close>

definition sample_client :: client where
  "sample_client =
     \<lparr>base_url = ascii ''https://api.proxyapi.ru/openai/v1'', api_token = ascii ''sk-test'',
      model = ascii ''gpt-3.5-turbo''\<rparr>"

definition unconfigured_client :: client where
  "unconfigured_client = sample_client\<lparr>api_token := []\<rparr>"

definition completion :: "pystr \<Rightarrow> json" where
  \<comment> \<open>a completion body whose first choice carries the given text\<close>
  "completion txt =
     JObj [(ascii ''choices'',
            JArr [JObj [(ascii ''message'', JObj [(ascii ''content'', JStr txt)])]])]"

definition rate_limited :: "nat \<Rightarrow> http_outcome" where
  "rate_limited attempt = Response 429 (ascii ''Too Many Requests'') (Inl (Raised []))"


definition third_time_lucky :: "nat \<Rightarrow> http_outcome" where
  "third_time_lucky attempt =
     (if attempt < 2 then rate_limited attempt
      else Response 200 [] (Inr (completion (ascii '' ok ''))))"

definition answering :: "nat \<Rightarrow> http_outcome" where
  "answering attempt = Response 200 [] (Inr (completion (ascii '' ok '')))"

definition kb_found :: "pystr \<Rightarrow> nat \<Rightarrow> py_exn + pystr" where
  "kb_found query top_k = Inr test_context"

definition kb_empty :: "pystr \<Rightarrow> nat \<Rightarrow> py_exn + pystr" where
  "kb_empty query top_k = Inr []"

definition sample_env :: "(pystr \<Rightarrow> nat \<Rightarrow> py_exn + pystr) \<Rightarrow> (nat \<Rightarrow> http_outcome) \<Rightarrow> env" where
  "sample_env kb post =
     \<lparr>llm_client = sample_client, search = kb, http_post = post, start_time = 0, end_time = 1\<rparr>"

section \<open>Basic facts\<close>

lemma range_n_3: "range_n 3 = [0, 1, 2]"
  by (simp add: range_n_def upt_rec)

lemma generate_response_requests:
  assumes "api_token self \<noteq> []" and "user_query \<noteq> []" and "strip user_query \<noteq> []"
  shows "generate_response self post user_query context =
           request_loop (post_call self user_query context) post [0, 1, 2]"
  using assms by (simp add: generate_response_def range_n_3)

lemma strip_test_query: "strip test_query = test_query"
  by (simp add: strip_def test_query_def isspace_def)

lemma test_query_not_empty: "test_query \<noteq> []"
  by (simp add: test_query_def)

lemma sample_client_token: "api_token sample_client \<noteq> []"
  by (simp add: sample_client_def ascii_def)

section \<open>The retry loop\<close>

text \<open>
  C3. When the endpoint answers 429 on each of the three attempts, the client sleeps
  1, 2 and 4 after them and raises the error of the exhausted attempts, the one raised
  after the loop: there is no error of its own for the rate limit, and nothing is posted
  after the last sleep.
\<close>

theorem rate_limit_exhausts_attempts:
  assumes "api_token self \<noteq> []" and "user_query \<noteq> []" and "strip user_query \<noteq> []"
    and "\<forall>attempt \<in> set (range_n 3). \<exists>txt js. post attempt = Response 429 txt js"
  shows "generate_response self post user_query context =
           (Inl (LLMAPIError exhausted_text),
            [post_call self user_query context, Sleep 1,
             post_call self user_query context, Sleep 2,
             post_call self user_query context, Sleep 4])"
proof -
  from assms(4) obtain t0 j0 t1 j1 t2 j2 where
    p0: "post 0 = Response 429 t0 j0" and p1: "post 1 = Response 429 t1 j1"
    and p2: "post 2 = Response 429 t2 j2"
    unfolding range_n_3 by auto
  from p1 have p1': "post (Suc 0) = Response 429 t1 j1" by simp
  show ?thesis
    unfolding generate_response_requests [OF assms(1-3)]
    by (simp add: p0 p1' p2)
qed

theorem rate_limit_exhausts_attempts_witness:
  "generate_response sample_client rate_limited test_query None =
     (Inl (LLMAPIError exhausted_text),
      [post_call sample_client test_query None, Sleep 1,
       post_call sample_client test_query None, Sleep 2,
       post_call sample_client test_query None, Sleep 4])"
  using rate_limit_exhausts_attempts [of sample_client test_query rate_limited None]
  by (simp add: sample_client_token test_query_not_empty strip_test_query rate_limited_def)

lemma read_answer_content:
  assumes "getitem result (ascii ''choices'') = Inr choices"
    and "getitem0 choices = Inr choice"
    and "getitem choice (ascii ''message'') = Inr msg"
    and "getitem msg (ascii ''content'') = Inr (JStr s)"
  shows "read_answer (Inr result) = Inr (strip s)"
  using assms by (simp add: read_answer_def)

lemma read_answer_completion: "read_answer (Inr (completion txt)) = Inr (strip txt)"
  by (rule read_answer_content [where choices = "JArr [JObj [(ascii ''message'', JObj [(ascii ''content'', JStr txt)])]]"
        and choice = "JObj [(ascii ''message'', JObj [(ascii ''content'', JStr txt)])]"
        and msg = "JObj [(ascii ''content'', JStr txt)]"])
     (simp_all add: completion_def)

lemma wait_of_post_call [simp]: "wait_of (post_call self user_query context) = 0"
  by (simp add: post_call_def)

lemma is_post_post_call [simp]: "is_post (post_call self user_query context)"
  by (simp add: post_call_def)

lemma strip_ok: "strip (ascii '' ok '') = ascii ''ok''"
  by (simp add: strip_def ascii_def isspace_def)

text \<open>
  C4. Two 429 answers and then a 200 whose body has a string at
  \<^verbatim>\<open>choices[0].message.content\<close>: the client returns that string stripped, the text of
  the attempt that succeeded, having slept 1 and 2 between the three POSTs, 3 in all.
\<close>

theorem rate_limit_then_success:
  assumes "api_token self \<noteq> []" and "user_query \<noteq> []" and "strip user_query \<noteq> []"
    and "post 0 = Response 429 txt0 js0" and "post 1 = Response 429 txt1 js1"
    and "post 2 = Response 200 txt2 (Inr result)"
    and "getitem result (ascii ''choices'') = Inr choices"
    and "getitem0 choices = Inr choice"
    and "getitem choice (ascii ''message'') = Inr msg"
    and "getitem msg (ascii ''content'') = Inr (JStr s)"
  shows "generate_response self post user_query context =
           (Inr (strip s),
            [post_call self user_query context, Sleep 1,
             post_call self user_query context, Sleep 2,
             post_call self user_query context]) \<and>
         total_wait (snd (generate_response self post user_query context)) = 1 + 2"
proof -
  from assms(5) have p1: "post (Suc 0) = Response 429 txt1 js1" by simp
  have answer: "read_answer (Inr result) = Inr (strip s)"
    using assms(7-10) by (rule read_answer_content)
  have "generate_response self post user_query context =
           (Inr (strip s),
            [post_call self user_query context, Sleep 1,
             post_call self user_query context, Sleep 2,
             post_call self user_query context])"
    unfolding generate_response_requests [OF assms(1-3)]
    by (simp add: assms(4) p1 assms(6) answer)
  then show ?thesis by (simp add: total_wait_def)
qed

theorem rate_limit_then_success_witness:
  "generate_response sample_client third_time_lucky test_query None =
     (Inr (ascii ''ok''),
      [post_call sample_client test_query None, Sleep 1,
       post_call sample_client test_query None, Sleep 2,
       post_call sample_client test_query None]) \<and>
   total_wait (snd (generate_response sample_client third_time_lucky test_query None)) = 1 + 2"
  using rate_limit_then_success [of sample_client test_query third_time_lucky
      "ascii ''Too Many Requests''" "Inl (Raised [])" "ascii ''Too Many Requests''" "Inl (Raised [])"
      "[]" "completion (ascii '' ok '')"
      "JArr [JObj [(ascii ''message'', JObj [(ascii ''content'', JStr (ascii '' ok ''))])]]"
      "JObj [(ascii ''message'', JObj [(ascii ''content'', JStr (ascii '' ok ''))])]"
      "JObj [(ascii ''content'', JStr (ascii '' ok ''))]" "ascii '' ok ''" None]
  by (simp add: sample_client_token test_query_not_empty strip_test_query third_time_lucky_def
      rate_limited_def completion_def strip_ok total_wait_def)



section \<open>Answers, fallbacks and the missing token\<close>

lemma request_loop_transient:
  assumes "transient (post attempt)" and "attempt \<noteq> 2"
  shows "fst (request_loop call post (attempt # rest)) = fst (request_loop call post rest)"
  using assms by (cases "post attempt") (simp_all add: split_beta)

lemma request_loop_answer:
  assumes "post attempt = Response 200 txt js" and "read_answer js = Inr answer"
  shows "request_loop call post (attempt # rest) = (Inr answer, [call])"
  using assms by simp

lemma request_loop_reaches:
  assumes "k \<in> set (range_n 3)" and "\<forall>i<k. transient (post i)"
    and "post k = Response 200 txt js" and "read_answer js = Inr answer"
  shows "fst (request_loop call post [0, 1, 2]) = Inr answer"
proof -
  from assms(1) consider "k = 0" | "k = 1" | "k = 2"
    unfolding range_n_3 by auto
  then show ?thesis
  proof cases
    case 1
    with assms(3,4) show ?thesis by (simp add: request_loop_answer)
  next
    case 2
    with assms(2) have "transient (post 0)" by simp
    then have "fst (request_loop call post [0, 1, 2]) = fst (request_loop call post [1, 2])"
      by (rule request_loop_transient) simp
    also from 2 assms(3,4) have "request_loop call post [1, 2] = (Inr answer, [call])"
      by (simp only: request_loop_answer)
    finally show ?thesis by simp
  next
    case 3
    with assms(2) have "transient (post 0)" and "transient (post 1)" by simp_all
    then have "fst (request_loop call post [0, 1, 2]) = fst (request_loop call post [2])"
      by (simp add: request_loop_transient del: request_loop.simps)
    also from 3 assms(3,4) have "request_loop call post [2] = (Inr answer, [call])"
      by (simp only: request_loop_answer)
    finally show ?thesis by simp
  qed
qed

lemma process_chat_request_found:
  assumes "search w query 3 = Inr ctx"
  shows "fst (process_chat_request w query) =
           Inr \<lparr>response =
                  (case fst (generate_response (llm_client w) (http_post w) query (Some ctx)) of
                     Inr t \<Rightarrow> t
                   | Inl e \<Rightarrow> if ctx \<noteq> [] then fallback_with_context @ ctx
                              else fallback_without_context),
                context_found = (ctx \<noteq> []),
                processing_time = Some (round3 (end_time w - start_time w))\<rparr>"
  using assms by (simp add: process_chat_request_def split_beta)


text \<open>
  C6. When an attempt is reached (every earlier one was retried) and answers 200 with a
  body whose \<^verbatim>\<open>choices[0].message.content\<close> is a string, the client returns that string
  stripped. The handler then answers with it: with a non-empty context from the search,
  \<open>context_found\<close> is true and the response is the stripped text of the model.
\<close>

theorem success_returns_trimmed_completion:
  assumes "api_token (llm_client w) \<noteq> []" and "query \<noteq> []" and "strip query \<noteq> []"
    and "k \<in> set (range_n 3)" and "\<forall>i<k. transient (http_post w i)"
    and "http_post w k = Response 200 txt (Inr result)"
    and "getitem result (ascii ''choices'') = Inr choices"
    and "getitem0 choices = Inr choice"
    and "getitem choice (ascii ''message'') = Inr msg"
    and "getitem msg (ascii ''content'') = Inr (JStr s)"
  shows "fst (generate_response (llm_client w) (http_post w) query context) = Inr (strip s) \<and>
         (\<forall>ctx. search w query 3 = Inr ctx \<and> ctx \<noteq> [] \<longrightarrow>
            (\<exists>r. fst (process_chat_request w query) = Inr r \<and>
                 context_found r \<and> response r = strip s))"
proof -
  have answer: "read_answer (Inr result) = Inr (strip s)"
    using assms(7-10) by (rule read_answer_content)
  have gen: "fst (generate_response (llm_client w) (http_post w) query c) = Inr (strip s)" for c
    unfolding generate_response_requests [OF assms(1-3)]
    using assms(4-6) answer by (rule request_loop_reaches)
  show ?thesis
    by (simp add: gen process_chat_request_found)
qed

theorem success_returns_trimmed_completion_witness:
  "fst (generate_response sample_client third_time_lucky test_query None) = Inr (ascii ''ok'') \<and>
   (\<exists>r. fst (process_chat_request (sample_env kb_found third_time_lucky) test_query) = Inr r \<and>
        context_found r \<and> response r = ascii ''ok'')"
proof -
  let ?w = "sample_env kb_found third_time_lucky"
  have "\<forall>i<2. transient (http_post ?w i)"
    by (simp add: sample_env_def third_time_lucky_def rate_limited_def)
  moreover have "http_post ?w 2 = Response 200 [] (Inr (completion (ascii '' ok '')))"
    by (simp add: sample_env_def third_time_lucky_def)
  moreover have "search ?w test_query 3 = Inr test_context \<and> test_context \<noteq> []"
    by (simp add: sample_env_def kb_found_def test_context_def)
  ultimately show ?thesis
    using success_returns_trimmed_completion [of ?w test_query 2 "[]" "completion (ascii '' ok '')"
        "JArr [JObj [(ascii ''message'', JObj [(ascii ''content'', JStr (ascii '' ok ''))])]]"
        "JObj [(ascii ''message'', JObj [(ascii ''content'', JStr (ascii '' ok ''))])]"
        "JObj [(ascii ''content'', JStr (ascii '' ok ''))]" "ascii '' ok ''" None]
    by (simp add: sample_env_def sample_client_token test_query_not_empty strip_test_query
        range_n_3 completion_def strip_ok)
qed





text \<open>
  C2, as the code has it. Without an API token the client returns at once, with no event
  at all, and what it returns is an ordinary text, not an error: the text asking for a
  question when the query is blank (that check comes first), the text saying the service
  is unavailable otherwise.
\<close>

theorem missing_token_returns_text:
  assumes "api_token self = []"
  shows "generate_response self post user_query context =
           (Inr (if user_query = [] \<or> strip user_query = [] then ask_question_text
                 else unavailable_text), [])"
  using assms by (simp add: generate_response_def)

theorem missing_token_returns_text_witness:
  "generate_response unconfigured_client rate_limited test_query None = (Inr unavailable_text, [])"
  using missing_token_returns_text [of unconfigured_client rate_limited test_query None]
  by (simp add: unconfigured_client_def test_query_not_empty strip_test_query)

text \<open>
  C2 as stated fails: with no token the result is a text on the success side, the same
  kind of value as a model's answer.
\<close>

theorem missing_token_is_no_failure:
  "\<not> isl (fst (generate_response unconfigured_client rate_limited test_query None)) \<and>
   fst (generate_response unconfigured_client rate_limited test_query None) = Inr unavailable_text"
  by (simp add: generate_response_def unconfigured_client_def test_query_not_empty
      strip_test_query)

section \<open>Validation and the prompt\<close>

lemma strip_blank: "strip (ascii ''   '') = []"
  by (simp add: strip_def ascii_def isspace_def)

text \<open>
  C8. The empty query, the query of three spaces and every query of 1001 characters are
  refused when the request is built: the route answers with the validation error and no
  event happened, neither a search nor a POST.
\<close>

theorem invalid_query_is_rejected_before_any_call:
  "chat_route w [] = (Inl MinLengthError, []) \<and>
   chat_route w (ascii ''   '') = (Inl (ValueError empty_query_text), []) \<and>
   (length query = 1001 \<longrightarrow> chat_route w query = (Inl MaxLengthError, []))"
  by (simp add: chat_route_def ChatRequest_def validate_query_def strip_blank)
     (simp add: ascii_def)

theorem invalid_query_is_rejected_before_any_call_witness:
  "chat_route (sample_env kb_found answering) [] = (Inl MinLengthError, []) \<and>
   chat_route (sample_env kb_found answering) (ascii ''   '') =
     (Inl (ValueError empty_query_text), []) \<and>
   chat_route (sample_env kb_found answering) (replicate 1001 97) = (Inl MaxLengthError, [])"
  using invalid_query_is_rejected_before_any_call
    [of "sample_env kb_found answering" "replicate 1001 97"]
  by simp

lemma no_context_footer_says:
  "sublist not_found_phrase no_context_footer \<and>
   sublist cannot_answer_phrase no_context_footer \<and>
   sublist suggest_specialists no_context_footer"
proof (intro conjI)
  show "sublist not_found_phrase no_context_footer"
    unfolding sublist_def
    by (rule exI [of _ "take 16 no_context_footer"], rule exI [of _ "drop 49 no_context_footer"])
       (simp add: no_context_footer_def not_found_phrase_def)
  show "sublist cannot_answer_phrase no_context_footer"
    unfolding sublist_def
    by (rule exI [of _ "take 62 no_context_footer"], rule exI [of _ "drop 89 no_context_footer"])
       (simp add: no_context_footer_def cannot_answer_phrase_def)
  show "sublist suggest_specialists no_context_footer"
    unfolding sublist_def
    by (rule exI [of _ "take 101 no_context_footer"], rule exI [of _ "drop 126 no_context_footer"])
       (simp add: no_context_footer_def suggest_specialists_def)
qed

lemma ascii_system_user: "ascii ''system'' \<noteq> ascii ''user''"
  by (simp add: ascii_def)

text \<open>
  C9. The prompt is a function of the query and the context alone. It has two messages,
  in this order: one system message with the fixed text of the consultant, and one user
  message. With a non-empty context the user message is the header, the context, the
  question line with the query and the footer; with no context, or an empty one, it is
  the question line with the query and the footer saying that nothing relevant was found,
  that no exact answer can be given, and suggesting the specialists.
\<close>

theorem build_messages_shape:
  "map role (build_messages user_query context) = [ascii ''system'', ascii ''user''] \<and>
   length (filter (\<lambda>m. role m = ascii ''system'') (build_messages user_query context)) = 1 \<and>
   length (filter (\<lambda>m. role m = ascii ''user'') (build_messages user_query context)) = 1 \<and>
   content (hd (build_messages user_query context)) = system_content \<and>
   content (last (build_messages user_query context)) =
     (case context of
        None \<Rightarrow> no_context_question @ user_query @ no_context_footer
      | Some c \<Rightarrow>
          if c = [] then no_context_question @ user_query @ no_context_footer
          else context_header @ c @ context_question @ user_query @ context_footer) \<and>
   sublist not_found_phrase no_context_footer \<and>
   sublist cannot_answer_phrase no_context_footer \<and>
   sublist suggest_specialists no_context_footer"
  using ascii_system_user
  by (simp add: build_messages_def user_content_with_context_def
      user_content_without_context_def no_context_footer_says split: option.split)

theorem build_messages_shape_witness:
  "build_messages test_query (Some test_context) =
     [\<lparr>role = ascii ''system'', content = system_content\<rparr>,
      \<lparr>role = ascii ''user'',
       content = context_header @ test_context @ context_question @ test_query @ context_footer\<rparr>] \<and>
   build_messages test_query None =
     [\<lparr>role = ascii ''system'', content = system_content\<rparr>,
      \<lparr>role = ascii ''user'', content = no_context_question @ test_query @ no_context_footer\<rparr>]"
proof -
  have two: "xs = [\<lparr>role = hd (map role xs), content = content (hd xs)\<rparr>,
                   \<lparr>role = last (map role xs), content = content (last xs)\<rparr>]"
    if "length (map role xs) = 2" for xs :: "message list"
  proof -
    from that obtain a b where "xs = [a, b]"
      by (cases xs; cases "tl xs"; cases "tl (tl xs)") auto
    then show ?thesis by simp
  qed
  have nonempty: "test_context \<noteq> []" by (simp add: test_context_def)
  show ?thesis
    using build_messages_shape [of test_query "Some test_context"]
      build_messages_shape [of test_query None] nonempty
      two [of "build_messages test_query (Some test_context)"]
      two [of "build_messages test_query None"]
    by simp
qed

section \<open>The empty context\<close>

lemma request_loop_events:
  "set (snd (request_loop call post attempts)) \<subseteq> insert call (Sleep ` UNIV)"
proof (induction attempts)
  case Nil
  show ?case by simp
next
  case (Cons attempt rest)
  obtain r evs where rest: "request_loop call post rest = (r, evs)"
    by (cases "request_loop call post rest")
  with Cons.IH have evs: "set evs \<subseteq> insert call (Sleep ` UNIV)" by simp
  show ?case
  proof (cases "post attempt")
    case (Response status body js)
    with evs rest show ?thesis by (auto split: sum.splits)
  next
    case (TimeoutException m)
    with evs rest show ?thesis by auto
  next
    case (RequestError m)
    with evs rest show ?thesis by auto
  next
    case (OtherException e)
    then show ?thesis by simp
  qed
qed

lemma generate_response_events:
  "set (snd (generate_response self post user_query context))
     \<subseteq> insert (post_call self user_query context) (Sleep ` UNIV)"
  using request_loop_events [of "post_call self user_query context" post "range_n 3"]
  by (simp add: generate_response_def)

lemma build_messages_empty: "build_messages user_query (Some []) = build_messages user_query None"
  by (simp add: build_messages_def)

lemma process_chat_request_events:
  assumes "search w query 3 = Inr ctx"
  shows "snd (process_chat_request w query) =
           Search query 3 # snd (generate_response (llm_client w) (http_post w) query (Some ctx))"
  using assms by (simp add: process_chat_request_def split_beta Let_def)

lemma user_contents_differ:
  "user_content_with_context user_query context \<noteq> user_content_without_context user_query'"
  by (simp add: user_content_with_context_def user_content_without_context_def
      context_header_def no_context_question_def)

lemma posted_messages:
  assumes "search w query 3 = Inr ctx"
    and "Post url headers body \<in> set (snd (process_chat_request w query))"
  shows "messages body = build_messages query (Some ctx)"
proof -
  from assms have "Post url headers body
      \<in> set (snd (generate_response (llm_client w) (http_post w) query (Some ctx)))"
    by (simp add: process_chat_request_events)
  with generate_response_events [of "llm_client w" "http_post w" query "Some ctx"]
  have "Post url headers body = post_call (llm_client w) query (Some ctx)"
    by auto
  then show ?thesis
    by (simp add: post_call_def request_payload_def)
qed

lemma user_message_of_build_messages:
  "content (last (build_messages user_query context)) =
     (case context of
        None \<Rightarrow> user_content_without_context user_query
      | Some c \<Rightarrow>
          if c = [] then user_content_without_context user_query
          else user_content_with_context user_query c)"
  by (simp add: build_messages_def split: option.split)

lemma answering_run:
  "snd (process_chat_request (sample_env kb answering) test_query) =
     (case kb test_query 3 of
        Inl e \<Rightarrow> [Search test_query 3]
      | Inr ctx \<Rightarrow> [Search test_query 3, post_call sample_client test_query (Some ctx)])"
  by (simp add: process_chat_request_def sample_env_def generate_response_def
      test_query_not_empty strip_test_query sample_client_token range_n_3 answering_def
      read_answer_completion split: sum.split)

lemma empty_context_branches:
  "build_messages user_query (Some []) = build_messages user_query None \<and>
   content (last (build_messages user_query (Some []))) =
     user_content_without_context user_query \<and>
   content (last (build_messages user_query None)) =
     user_content_without_context user_query \<and>
   content (last (build_messages user_query (Some (c # cs)))) =
     user_content_with_context user_query (c # cs) \<and>
   user_content_with_context user_query context \<noteq> user_content_without_context user_query \<and>
   (\<forall>ctx. search w query 3 = Inr ctx \<longrightarrow>
      (\<exists>r. fst (process_chat_request w query) = Inr r \<and>
           context_found r = (ctx \<noteq> []) \<and>
           (\<forall>url headers body.
              Post url headers body \<in> set (snd (process_chat_request w query)) \<longrightarrow>
              messages body =
                build_messages query (if context_found r then Some ctx else None) \<and>
              content (last (messages body)) =
                (if context_found r then user_content_with_context query ctx
                 else user_content_without_context query))))"
proof (intro conjI allI impI)
  show "build_messages user_query (Some []) = build_messages user_query None"
    by (rule build_messages_empty)
  show "content (last (build_messages user_query (Some []))) =
          user_content_without_context user_query"
    by (simp add: user_message_of_build_messages)
  show "content (last (build_messages user_query None)) =
          user_content_without_context user_query"
    by (simp add: user_message_of_build_messages)
  show "content (last (build_messages user_query (Some (c # cs)))) =
          user_content_with_context user_query (c # cs)"
    by (simp add: user_message_of_build_messages)
  show "user_content_with_context user_query context \<noteq> user_content_without_context user_query"
    by (rule user_contents_differ)
next
  fix ctx
  assume found: "search w query 3 = Inr ctx"
  obtain r where r: "fst (process_chat_request w query) = Inr r"
    and flag: "context_found r = (ctx \<noteq> [])"
    using process_chat_request_found [OF found] by simp
  have posted: "messages body = build_messages query (if context_found r then Some ctx else None) \<and>
                content (last (messages body)) =
                  (if context_found r then user_content_with_context query ctx
                   else user_content_without_context query)"
    if "Post url headers body \<in> set (snd (process_chat_request w query))" for url headers body
  proof -
    from found that have m: "messages body = build_messages query (Some ctx)"
      by (rule posted_messages)
    show ?thesis
      by (simp add: m flag build_messages_empty user_message_of_build_messages)
  qed
  from r flag posted
  show "\<exists>r. fst (process_chat_request w query) = Inr r \<and>
           context_found r = (ctx \<noteq> []) \<and>
           (\<forall>url headers body.
              Post url headers body \<in> set (snd (process_chat_request w query)) \<longrightarrow>
              messages body =
                build_messages query (if context_found r then Some ctx else None) \<and>
              content (last (messages body)) =
                (if context_found r then user_content_with_context query ctx
                 else user_content_without_context query))"
    by blast
qed

text \<open>
  C10. An empty search result counts as no context everywhere. The prompt built for the
  empty string is the prompt built for no context, and its user message is the one
  without context; for a non-empty context the user message is the one with the context,
  and the two never coincide. In a request whose search returned, \<open>context_found\<close> is
  false exactly for the empty string, and the user message of every POST of that request
  is the one of the branch the flag names: with the context when it is true, without
  context when it is false.
\<close>

theorem empty_context_is_absent_context:
  "build_messages user_query (Some []) = build_messages user_query None \<and>
   content (last (build_messages user_query (Some []))) =
     no_context_question @ user_query @ no_context_footer \<and>
   content (last (build_messages user_query None)) =
     no_context_question @ user_query @ no_context_footer \<and>
   content (last (build_messages user_query (Some (c # cs)))) =
     context_header @ (c # cs) @ context_question @ user_query @ context_footer \<and>
   context_header @ context @ context_question @ user_query @ context_footer \<noteq>
     no_context_question @ user_query @ no_context_footer \<and>
   (\<forall>ctx. search w query 3 = Inr ctx \<longrightarrow>
      (\<exists>r. fst (process_chat_request w query) = Inr r \<and>
           context_found r = (ctx \<noteq> []) \<and>
           (\<forall>url headers body.
              Post url headers body \<in> set (snd (process_chat_request w query)) \<longrightarrow>
              messages body =
                build_messages query (if context_found r then Some ctx else None) \<and>
              content (last (messages body)) =
                (if context_found r
                 then context_header @ ctx @ context_question @ query @ context_footer
                 else no_context_question @ query @ no_context_footer))))"
  using empty_context_branches [of user_query c cs "context" w query]
  unfolding user_content_with_context_def user_content_without_context_def .

theorem empty_context_is_absent_context_witness:
  "snd (process_chat_request (sample_env kb_empty answering) test_query) =
     [Search test_query 3, post_call sample_client test_query (Some [])] \<and>
   snd (process_chat_request (sample_env kb_found answering) test_query) =
     [Search test_query 3, post_call sample_client test_query (Some test_context)] \<and>
   (\<exists>r. fst (process_chat_request (sample_env kb_empty answering) test_query) = Inr r \<and>
        context_found r = False \<and>
        content (last (messages (request_payload sample_client test_query (Some [])))) =
          user_content_without_context test_query) \<and>
   (\<exists>r. fst (process_chat_request (sample_env kb_found answering) test_query) = Inr r \<and>
        context_found r = True \<and>
        content (last (messages (request_payload sample_client test_query (Some test_context)))) =
          user_content_with_context test_query test_context) \<and>
   user_content_with_context test_query test_context \<noteq> user_content_without_context test_query"
proof -
  let ?e = "sample_env kb_empty answering" and ?f = "sample_env kb_found answering"
  have runs: "snd (process_chat_request ?e test_query) =
                [Search test_query 3, post_call sample_client test_query (Some [])]"
    "snd (process_chat_request ?f test_query) =
       [Search test_query 3, post_call sample_client test_query (Some test_context)]"
    by (simp_all add: answering_run kb_empty_def kb_found_def)
  have searches: "search ?e test_query 3 = Inr []" "search ?f test_query 3 = Inr test_context"
    and nonempty: "test_context \<noteq> []"
    by (simp_all add: sample_env_def kb_empty_def kb_found_def test_context_def)
  note at_empty = empty_context_is_absent_context
      [of test_query 0 "[]" test_context ?e test_query,
       folded user_content_with_context_def user_content_without_context_def]
  note at_found = empty_context_is_absent_context
      [of test_query 0 "[]" test_context ?f test_query,
       folded user_content_with_context_def user_content_without_context_def]
  from at_empty [THEN conjunct2, THEN conjunct2, THEN conjunct2, THEN conjunct2, THEN conjunct2,
      rule_format, OF searches(1)]
  obtain r where r: "fst (process_chat_request ?e test_query) = Inr r"
    "context_found r = (([]::pystr) \<noteq> [])"
    "\<forall>url headers body.
        Post url headers body \<in> set (snd (process_chat_request ?e test_query)) \<longrightarrow>
        messages body = build_messages test_query (if context_found r then Some [] else None) \<and>
        content (last (messages body)) =
          (if context_found r then user_content_with_context test_query []
           else user_content_without_context test_query)"
    by blast
  from at_found [THEN conjunct2, THEN conjunct2, THEN conjunct2, THEN conjunct2, THEN conjunct2,
      rule_format, OF searches(2)]
  obtain r' where r': "fst (process_chat_request ?f test_query) = Inr r'"
    "context_found r' = (test_context \<noteq> [])"
    "\<forall>url headers body.
        Post url headers body \<in> set (snd (process_chat_request ?f test_query)) \<longrightarrow>
        messages body =
          build_messages test_query (if context_found r' then Some test_context else None) \<and>
        content (last (messages body)) =
          (if context_found r' then user_content_with_context test_query test_context
           else user_content_without_context test_query)"
    by blast
  from r(2) have no: "context_found r = False" by simp
  from r'(2) nonempty have yes: "context_found r' = True" by simp
  have in_e: "Post (base_url sample_client @ ascii ''/chat/completions'')
                (request_headers sample_client)
                (request_payload sample_client test_query (Some []))
              \<in> set (snd (process_chat_request ?e test_query))"
    unfolding runs post_call_def by simp
  have in_f: "Post (base_url sample_client @ ascii ''/chat/completions'')
                (request_headers sample_client)
                (request_payload sample_client test_query (Some test_context))
              \<in> set (snd (process_chat_request ?f test_query))"
    unfolding runs post_call_def by simp
  have "content (last (messages (request_payload sample_client test_query (Some [])))) =
          user_content_without_context test_query"
    using r(3) [rule_format, OF in_e, THEN conjunct2] no by simp
  moreover
  have "content (last (messages (request_payload sample_client test_query (Some test_context)))) =
          user_content_with_context test_query test_context"
    using r'(3) [rule_format, OF in_f, THEN conjunct2] yes by simp
  moreover
  have "user_content_with_context test_query test_context \<noteq> user_content_without_context test_query"
    using at_empty by blast
  ultimately show ?thesis using runs r(1) no r'(1) yes by blast
qed

section \<open>The health check\<close>

lemma health_check_iff:
  "fst (health_check self post) \<longleftrightarrow>
     (\<exists>t. fst (generate_response self post test_query (Some test_context)) = Inr t \<and> t \<noteq> [])"
  by (cases "generate_response self post test_query (Some test_context)")
     (auto simp: health_check_def split: sum.splits)

lemma health_check_events:
  "snd (health_check self post) = snd (generate_response self post test_query (Some test_context))"
  by (cases "generate_response self post test_query (Some test_context)")
     (auto simp: health_check_def split: sum.splits)

text \<open>
  C7. With no API token the health check answers true, without any POST: the text the
  client returns instead of raising is non-empty.
\<close>

theorem health_check_without_token:
  "health_check unconfigured_client rate_limited = (True, [])"
  by (simp add: health_check_def generate_response_def unconfigured_client_def
      test_query_not_empty strip_test_query unavailable_text_def)

end
